theory Spec2Isabelle
  imports Main "HOL-Library.Word"
begin

unbundle bit_operations_syntax

section \<open>The IP layer of the router (ip.c)\<close>

subsection \<open>Byte order\<close>

text \<open>
  Addresses and the 16-bit header fields are kept in memory in network byte order, and
  the code converts them with \<open>ntohl\<close>, \<open>ntohs\<close> and \<open>htons\<close>. What these library
  functions compute depends on the byte order of the host, which is a parameter of the
  model: they swap the bytes on a little-endian host and are the identity on a
  big-endian one.
\<close>

datatype endian = LittleEndian | BigEndian

definition swap16 :: "16 word \<Rightarrow> 16 word" where
  "swap16 x = push_bit 8 x OR drop_bit 8 x"

definition swap32 :: "32 word \<Rightarrow> 32 word" where
  "swap32 x =
     push_bit 24 x OR push_bit 8 (x AND 0xFF00) OR (drop_bit 8 x AND 0xFF00) OR drop_bit 24 x"

definition ntohs :: "endian \<Rightarrow> 16 word \<Rightarrow> 16 word" where
  "ntohs e x = (case e of LittleEndian \<Rightarrow> swap16 x | BigEndian \<Rightarrow> x)"

definition htons :: "endian \<Rightarrow> 16 word \<Rightarrow> 16 word" where
  "htons e x = (case e of LittleEndian \<Rightarrow> swap16 x | BigEndian \<Rightarrow> x)"

definition ntohl :: "endian \<Rightarrow> 32 word \<Rightarrow> 32 word" where
  "ntohl e x = (case e of LittleEndian \<Rightarrow> swap32 x | BigEndian \<Rightarrow> x)"

text \<open>
  \<open>s_addr e a b c d\<close> is the value of the \<open>s_addr\<close> field of an \<open>in_addr\<close> holding the
  address \<open>a.b.c.d\<close>: the 32-bit integer the host reads from the four bytes
  \<open>a, b, c, d\<close> laid out in this order in memory.
\<close>

definition s_addr :: "endian \<Rightarrow> 8 word \<Rightarrow> 8 word \<Rightarrow> 8 word \<Rightarrow> 8 word \<Rightarrow> 32 word" where
  "s_addr e a b c d =
     (case e of
        LittleEndian \<Rightarrow>
          push_bit 24 (ucast d) OR push_bit 16 (ucast c) OR push_bit 8 (ucast b) OR ucast a
      | BigEndian \<Rightarrow>
          push_bit 24 (ucast a) OR push_bit 16 (ucast b) OR push_bit 8 (ucast c) OR ucast d)"

subsection \<open>The router instance: interfaces and routing table\<close>

text \<open>
  Modelled from the spec: \<open>struct sr_if\<close>, \<open>struct sr_rt\<close> and \<open>struct sr_instance\<close>,
  declared in sr_if.h, sr_rt.h and sr_router.h, which are not part of the source at hand.
  They have the fields ip.c reads, which are those of the spec's interface (name,
  link-layer address, IPv4 address) and routing table entry (destination, gateway, mask,
  interface name). Both linked lists (\<open>if_list\<close>, \<open>routing_table\<close>, chained by \<open>next\<close>)
  are lists of nodes in chain order; a pointer to a node of the routing table is the
  position of the node in the list, and \<open>NULL\<close> is \<open>None\<close>.
\<close>

type_synonym mac = "8 word list"

record sr_if =
  if_name :: string
  if_addr :: mac
  if_ip :: "32 word"

record sr_rt =
  rt_dest :: "32 word"
  rt_gw :: "32 word"
  rt_mask :: "32 word"
  rt_interface :: string

record sr_instance =
  if_list :: "sr_if list"
  routing_table :: "sr_rt list"

subsection \<open>lookupRoutingTable\<close>

text \<open>
  The \<open>while\<close> loop of \<open>lookupRoutingTable\<close>: \<open>rs\<close> is the rest of the chain from
  \<open>current_rt_entry\<close> on, \<open>i\<close> the position of \<open>current_rt_entry\<close>, and
  \<open>longest_prefix\<close> and \<open>rt_entry_with_longest_prefix\<close> are the two local variables.
\<close>

fun lookupRoutingTable_loop ::
  "endian \<Rightarrow> 32 word \<Rightarrow> sr_rt list \<Rightarrow> nat \<Rightarrow> 32 word \<Rightarrow> nat option \<Rightarrow> nat option" where
  "lookupRoutingTable_loop e dest_host_ip [] i longest_prefix rt_entry_with_longest_prefix =
     rt_entry_with_longest_prefix"
| "lookupRoutingTable_loop e dest_host_ip (current_rt_entry # rs) i longest_prefix
       rt_entry_with_longest_prefix =
     (let masked_rt_dest_ip =
            ntohl e (rt_dest current_rt_entry) AND ntohl e (rt_mask current_rt_entry);
          masked_dest_host_ip = ntohl e dest_host_ip AND ntohl e (rt_mask current_rt_entry)
      in if masked_rt_dest_ip = masked_dest_host_ip \<and> masked_dest_host_ip \<ge> longest_prefix
         then lookupRoutingTable_loop e dest_host_ip rs (Suc i) masked_dest_host_ip (Some i)
         else lookupRoutingTable_loop e dest_host_ip rs (Suc i) longest_prefix
                rt_entry_with_longest_prefix)"

definition lookupRoutingTable :: "endian \<Rightarrow> sr_instance \<Rightarrow> 32 word \<Rightarrow> nat option" where
  "lookupRoutingTable e sr dest_host_ip =
     lookupRoutingTable_loop e dest_host_ip (routing_table sr) 0 0 None"

text \<open>
  The two notions the description of the lookup uses: an entry is a candidate for a
  destination when both agree under the entry's mask, and its masked value is the
  destination under the entry's mask, both in host byte order.
\<close>

definition candidate :: "endian \<Rightarrow> 32 word \<Rightarrow> sr_rt \<Rightarrow> bool" where
  "candidate e dest_host_ip r \<longleftrightarrow>
     ntohl e (rt_dest r) AND ntohl e (rt_mask r) = ntohl e dest_host_ip AND ntohl e (rt_mask r)"

definition masked_value :: "endian \<Rightarrow> 32 word \<Rightarrow> sr_rt \<Rightarrow> 32 word" where
  "masked_value e dest_host_ip r = ntohl e dest_host_ip AND ntohl e (rt_mask r)"

subsection \<open>The IPv4 header and the datagram buffer\<close>

text \<open>
  Modelled from the spec: \<open>struct ip\<close>, declared in a header that is not part of the
  source at hand, with the fields ip.c reads and writes, which are those of the spec's
  IPv4 header in its fixed 20-byte form. \<open>ip_hl\<close> and \<open>ip_v\<close> are 4-bit bit-fields.
  \<open>ip_len\<close>, \<open>ip_id\<close> and \<open>ip_off\<close> hold values in network byte order, and so do the
  two addresses.
\<close>

record ip =
  ip_hl :: "4 word"
  ip_v :: "4 word"
  ip_tos :: "8 word"
  ip_len :: "16 word"
  ip_id :: "16 word"
  ip_off :: "16 word"
  ip_ttl :: "8 word"
  ip_p :: "8 word"
  ip_sum :: "16 word"
  ip_src :: "32 word"
  ip_dst :: "32 word"

text \<open>
  A datagram buffer (\<open>uint8_t* ip_datagram\<close>): the header at its start, viewed through
  \<open>(struct ip*)\<close>, and the bytes that follow the 20 bytes of the header.
\<close>

record datagram =
  dg_hdr :: ip
  dg_data :: "8 word list"

text \<open>The bytes of a 16-bit and of a 32-bit field in the memory of the host.\<close>

definition bytes16 :: "endian \<Rightarrow> 16 word \<Rightarrow> 8 word list" where
  "bytes16 e x =
     (case e of
        LittleEndian \<Rightarrow> [ucast x, ucast (drop_bit 8 x)]
      | BigEndian \<Rightarrow> [ucast (drop_bit 8 x), ucast x])"

definition bytes32 :: "endian \<Rightarrow> 32 word \<Rightarrow> 8 word list" where
  "bytes32 e x =
     (case e of
        LittleEndian \<Rightarrow> [ucast x, ucast (drop_bit 8 x), ucast (drop_bit 16 x), ucast (drop_bit 24 x)]
      | BigEndian \<Rightarrow> [ucast (drop_bit 24 x), ucast (drop_bit 16 x), ucast (drop_bit 8 x), ucast x])"

text \<open>
  The 20 bytes of a \<open>struct ip\<close> in memory, in the order of the IPv4 header: the first
  byte holds the version in its high and the header length in its low four bits.
\<close>

definition ip_bytes :: "endian \<Rightarrow> ip \<Rightarrow> 8 word list" where
  "ip_bytes e h =
     [push_bit 4 (ucast (ip_v h)) OR ucast (ip_hl h), ip_tos h] @ bytes16 e (ip_len h) @
     bytes16 e (ip_id h) @ bytes16 e (ip_off h) @
     [ip_ttl h, ip_p h] @ bytes16 e (ip_sum h) @
     bytes32 e (ip_src h) @ bytes32 e (ip_dst h)"

subsection \<open>The checksum\<close>

text \<open>
  Modelled from the spec: \<open>csum\<close>, which ip.c calls as \<open>csum((uint16_t*) hdr, 4 * ip_hl)\<close>
  and which is defined in a file that is not part of the source at hand. The spec
  describes it as the 16-bit one's-complement sum over the given number of bytes of the
  header: the 16-bit words the host reads from the buffer are added up, the carries are
  folded back into the low 16 bits, and the result is complemented. \<open>buf\<close> is the memory
  from the pointer on; when it is shorter than \<open>nbytes\<close> (where the C code would read
  past the buffer), the bytes that are there are summed.
\<close>

definition word16_at :: "endian \<Rightarrow> 8 word \<Rightarrow> 8 word \<Rightarrow> 16 word" where
  "word16_at e b0 b1 =
     (case e of
        LittleEndian \<Rightarrow> push_bit 8 (ucast b1) OR ucast b0
      | BigEndian \<Rightarrow> push_bit 8 (ucast b0) OR ucast b1)"

fun csum_words :: "endian \<Rightarrow> 8 word list \<Rightarrow> 32 word \<Rightarrow> 32 word" where
  "csum_words e (b0 # b1 # bs) acc = csum_words e bs (acc + ucast (word16_at e b0 b1))"
| "csum_words e bs acc = acc"

definition csum_fold :: "32 word \<Rightarrow> 16 word" where
  "csum_fold s =
     (let s1 = (s AND 0xFFFF) + drop_bit 16 s;
          s2 = (s1 AND 0xFFFF) + drop_bit 16 s1
      in ucast s2)"

definition csum :: "endian \<Rightarrow> 8 word list \<Rightarrow> nat \<Rightarrow> 16 word" where
  "csum e buf nbytes = NOT (csum_fold (csum_words e (take nbytes buf) 0))"

subsection \<open>ipDatagramShouldBeDropped\<close>

text \<open>
  The header is passed by value: \<open>ip_hdr\<close> is the callee's own copy, 20 bytes long, and
  clearing \<open>ip_sum\<close> changes the copy only. The function returns at the first check
  that fails.
\<close>

definition ipDatagramShouldBeDropped :: "endian \<Rightarrow> ip \<Rightarrow> bool" where
  "ipDatagramShouldBeDropped e ip_hdr =
     (if ntohs e (ip_len ip_hdr) < 20 then True
      else if ip_v ip_hdr \<noteq> 4 then True
      else if ip_hl ip_hdr > 5 then True
      else
        let checksum = ip_sum ip_hdr;
            ip_hdr' = ip_hdr\<lparr>ip_sum := 0\<rparr>
        in if checksum \<noteq> csum e (ip_bytes e ip_hdr') (4 * unat (ip_hl ip_hdr')) then True
           else False)"

subsection \<open>ip_dec_ttl\<close>

datatype error = AssertionFailed | OutOfBounds

text \<open>
  \<open>ip_dec_ttl\<close> works on the buffer through a pointer: the checksum is taken over the
  first \<open>4 * ip_hl\<close> bytes of the buffer, which reach into the bytes after the fixed
  header when \<open>ip_hl\<close> is more than 5. A failed \<open>assert\<close> aborts the program.
\<close>

definition ip_dec_ttl :: "endian \<Rightarrow> datagram \<Rightarrow> error + datagram" where
  "ip_dec_ttl e dg =
     (let ip_hdr = dg_hdr dg
      in if ip_ttl ip_hdr = 0 then Inl AssertionFailed
         else
           let h1 = ip_hdr\<lparr>ip_ttl := ip_ttl ip_hdr - 1\<rparr>;
               h2 = h1\<lparr>ip_sum := 0\<rparr>;
               h3 = h2\<lparr>ip_sum := csum e (ip_bytes e h2 @ dg_data dg) (4 * unat (ip_hl h2))\<rparr>
           in Inr (dg\<lparr>dg_hdr := h3\<rparr>))"

subsection \<open>The collaborators of the IP layer\<close>

text \<open>
  The ARP layer, the Ethernet layer, the datagram buffer, the ICMP layer and the C
  library are outside ip.c. A call to one of them is recorded as an event that holds
  the arguments of the call, with the contents of the buffers at the time of the call;
  what a call returns is taken from the platform below. \<open>resolveMAC\<close> returns an
  \<open>int\<close> that a \<open>switch\<close> compares with three distinct constants: \<open>ARP_OTHER\<close> stands
  for every other value.
\<close>

datatype arp_status = ARP_RESOLVE_SUCCESS | ARP_REQUEST_SENT | ARP_RESOLVE_FAIL | ARP_OTHER

text \<open>
  An Ethernet frame that encloses a datagram (\<open>uint8_t* eth_frame\<close>) shares its memory
  with the datagram: it is given by the bytes of the frame that come before the
  datagram, and \<open>None\<close> is the \<open>NULL\<close> pointer.
\<close>

type_synonym eth_frame = "8 word list option"

datatype event =
    Printf string
  | Icmp_reply eth_frame datagram "32 word" string
  | ResolveMAC "32 word" "sr_if option" arp_status
  | SendEthFrameContainingIPDatagram mac "8 word list" datagram "sr_if option" "32 word"
  | EthSendIPDatagram mac datagram "sr_if option" "32 word"
  | BufferIPDatagram "32 word" datagram string "32 word"
  | HandleUndeliverableBufferedIPDatagram "32 word" "sr_if option"
  | Malloc nat
  | Free

text \<open>
  The platform: the byte order of the host, what the collaborators answer, and the
  constants of headers that are not part of the source at hand. \<open>malloc\<close> returns
  \<open>None\<close> for \<open>NULL\<close> and otherwise the header that the fresh, uninitialised memory
  happens to hold. \<open>icmp_reply\<close> returns its status and the datagram as it leaves it in
  the frame.
\<close>

record platform =
  host :: endian
  resolveMAC :: "sr_instance \<Rightarrow> 32 word \<Rightarrow> sr_if option \<Rightarrow> arp_status \<times> mac"
  icmp_reply :: "sr_instance \<Rightarrow> eth_frame \<Rightarrow> datagram \<Rightarrow> 32 word \<Rightarrow> string \<Rightarrow> int \<times> datagram"
  malloc :: "nat \<Rightarrow> ip option"
  DEFAULT_IP_TOS :: "8 word"
  DEFAULT_IP_ID :: "16 word"
  DEFAULT_IP_FRAGMENT :: "16 word"
  DEFAULT_IP_TTL :: "8 word"
  MIN_ICMP_MSG_LEN :: "32 word"
  ICMP_REQUEST :: "8 word"

text \<open>
  Modelled from the spec: the constants \<open>IPV4_VERSION\<close> and \<open>DEFAULT_IP_HEADER_LEN\<close> of
  ip.h, which is not part of the source at hand; the spec gives version 4 and header
  length 5 for the header built for an ICMP message. \<open>IPPROTO_ICMP\<close> is the protocol
  number of the system headers.
\<close>

definition IPV4_VERSION :: "4 word" where
  "IPV4_VERSION = 4"

definition DEFAULT_IP_HEADER_LEN :: "4 word" where
  "DEFAULT_IP_HEADER_LEN = 5"

definition IPPROTO_ICMP :: "8 word" where
  "IPPROTO_ICMP = 1"

text \<open>
  Modelled from the spec: \<open>sr_get_interface\<close> of sr_if.c, the spec's
  \<open>getInterfaceByName(router, name) -> Interface\<close>: the first interface of the router
  with the given name, \<open>NULL\<close> when there is none.
\<close>

definition sr_get_interface :: "sr_instance \<Rightarrow> string \<Rightarrow> sr_if option" where
  "sr_get_interface sr nm = find (\<lambda>iface. if_name iface = nm) (if_list sr)"

subsection \<open>sendIPDatagram\<close>

text \<open>
  The result of a function that works on a datagram buffer is the buffer as the code
  of ip.c leaves it, with the events in the order of the calls; a failed assertion ends
  the program.
\<close>

definition sendIPDatagram ::
  "platform \<Rightarrow> sr_instance \<Rightarrow> 32 word \<Rightarrow> string \<Rightarrow> datagram \<Rightarrow> eth_frame \<Rightarrow> 32 word \<Rightarrow>
   error + datagram \<times> event list" where
  "sendIPDatagram P sr next_hop_ip interface ip_datagram eth_frame ip_datagram_len =
     (case ip_dec_ttl (host P) ip_datagram of
        Inl err \<Rightarrow> Inl err
      | Inr dg \<Rightarrow>
          let iface = sr_get_interface sr interface;
              (resolveStatus, mac) = resolveMAC P sr next_hop_ip iface
          in Inr (dg, ResolveMAC next_hop_ip iface resolveStatus #
               (case resolveStatus of
                  ARP_RESOLVE_SUCCESS \<Rightarrow>
                    (case eth_frame of
                       Some f \<Rightarrow> [SendEthFrameContainingIPDatagram mac f dg iface ip_datagram_len]
                     | None \<Rightarrow> [EthSendIPDatagram mac dg iface ip_datagram_len])
                | ARP_REQUEST_SENT \<Rightarrow>
                    [BufferIPDatagram next_hop_ip dg interface ip_datagram_len,
                     Printf ''ip packet buffered\<newline>'']
                | ARP_RESOLVE_FAIL \<Rightarrow> [HandleUndeliverableBufferedIPDatagram next_hop_ip iface]
                | ARP_OTHER \<Rightarrow> [])))"

subsection \<open>forward\<close>

definition forward ::
  "platform \<Rightarrow> sr_instance \<Rightarrow> eth_frame \<Rightarrow> datagram \<Rightarrow> 32 word \<Rightarrow> error + datagram \<times> event list" where
  "forward P sr eth_frame ip_datagram ip_datagram_len =
     (case lookupRoutingTable (host P) sr (ip_dst (dg_hdr ip_datagram)) of
        Some k \<Rightarrow>
          let rt_entry_with_longest_prefix = routing_table sr ! k;
              next_hop_ip = rt_gw rt_entry_with_longest_prefix;
              interface = rt_interface rt_entry_with_longest_prefix
          in sendIPDatagram P sr next_hop_ip interface ip_datagram eth_frame ip_datagram_len
      | None \<Rightarrow> Inr (ip_datagram, []))"

subsection \<open>ipDatagramDestinedForMe and processIPDatagramDestinedForMe\<close>

fun ipDatagramDestinedForMe_loop :: "sr_if list \<Rightarrow> 32 word \<Rightarrow> bool" where
  "ipDatagramDestinedForMe_loop [] dest_host_ip = False"
| "ipDatagramDestinedForMe_loop (iface # rest) dest_host_ip =
     (if if_ip iface = dest_host_ip then True
      else ipDatagramDestinedForMe_loop rest dest_host_ip)"

definition ipDatagramDestinedForMe :: "sr_instance \<Rightarrow> 32 word \<Rightarrow> bool" where
  "ipDatagramDestinedForMe sr dest_host_ip = ipDatagramDestinedForMe_loop (if_list sr) dest_host_ip"

text \<open>
  The ICMP header (\<open>struct icmphdr\<close> of icmp.h) starts right after the IP header, with
  the type in its first byte; a buffer that ends with the IP header has no such byte to
  read.
\<close>

definition processIPDatagramDestinedForMe ::
  "platform \<Rightarrow> sr_instance \<Rightarrow> eth_frame \<Rightarrow> datagram \<Rightarrow> 32 word \<Rightarrow> error + datagram \<times> event list" where
  "processIPDatagramDestinedForMe P sr eth_frame ip_datagram ip_datagram_len =
     (if ip_p (dg_hdr ip_datagram) = IPPROTO_ICMP then
        (case dg_data ip_datagram of
           [] \<Rightarrow> Inl OutOfBounds
         | icmp_type # _ \<Rightarrow>
             if icmp_type = ICMP_REQUEST P then
               let (status, dg) = icmp_reply P sr eth_frame ip_datagram (ip_datagram_len + 14) ''eth0''
               in Inr (dg,
                    [Printf ''IP packet is of type ICMP!\<newline>'', Printf ''Got ICMP REQUEST!\<newline>'',
                     Icmp_reply eth_frame ip_datagram (ip_datagram_len + 14) ''eth0''] @
                    (if status = 0 then [Printf ''Sent ICMP REPLY!\<newline>''] else []))
             else Inr (ip_datagram, [Printf ''IP packet is of type ICMP!\<newline>'']))
      else Inr (ip_datagram, []))"

subsection \<open>handleIPDatagram\<close>

definition handleIPDatagram ::
  "platform \<Rightarrow> sr_instance \<Rightarrow> eth_frame \<Rightarrow> datagram \<Rightarrow> 32 word \<Rightarrow> error + datagram \<times> event list" where
  "handleIPDatagram P sr eth_frame ip_datagram ip_datagram_len =
     (let ip_hdr = dg_hdr ip_datagram
      in if ipDatagramShouldBeDropped (host P) ip_hdr then Inr (ip_datagram, [])
         else if ipDatagramDestinedForMe sr (ip_dst ip_hdr) then
           processIPDatagramDestinedForMe P sr eth_frame ip_datagram ip_datagram_len
         else if ip_ttl ip_hdr \<noteq> 0 then
           forward P sr eth_frame ip_datagram ip_datagram_len
         else Inr (ip_datagram, []))"

subsection \<open>setupIPHeaderForICMP, sendIcmpMessageWithSrcIP and sendIcmpMessage\<close>

definition setupIPHeaderForICMP :: "platform \<Rightarrow> ip \<Rightarrow> 16 word \<Rightarrow> 32 word \<Rightarrow> 32 word \<Rightarrow> ip" where
  "setupIPHeaderForICMP P ip_hdr ip_datagram_total_len src_ip dest_ip =
     ip_hdr\<lparr>ip_v := IPV4_VERSION,
            ip_hl := DEFAULT_IP_HEADER_LEN,
            ip_tos := DEFAULT_IP_TOS P,
            ip_len := htons (host P) ip_datagram_total_len,
            ip_id := htons (host P) (DEFAULT_IP_ID P),
            ip_off := htons (host P) (DEFAULT_IP_FRAGMENT P),
            ip_ttl := DEFAULT_IP_TTL P,
            ip_p := IPPROTO_ICMP,
            ip_src := src_ip,
            ip_dst := dest_ip\<rparr>"

text \<open>
  \<open>icmp_message\<close> is \<open>None\<close> for the \<open>NULL\<close> pointer; the router instance is a value, so
  \<open>assert(sr)\<close> holds. The functions return nothing and are handed no buffer they
  write to: their result is the list of events. \<open>sizeof(struct ip)\<close> is 20, and the sum
  is cut to the 16 bits of \<open>ip_datagram_total_len\<close>.
\<close>

definition sendIcmpMessageWithSrcIP ::
  "platform \<Rightarrow> sr_instance \<Rightarrow> 8 word list option \<Rightarrow> 32 word \<Rightarrow> 32 word \<Rightarrow> 32 word \<Rightarrow>
   error + event list" where
  "sendIcmpMessageWithSrcIP P sr icmp_message icmp_msg_len dest_ip src_ip =
     (if \<not> icmp_msg_len \<ge> MIN_ICMP_MSG_LEN P then Inl AssertionFailed
      else case icmp_message of
        None \<Rightarrow> Inl AssertionFailed
      | Some msg \<Rightarrow>
          if src_ip = 0 then Inl AssertionFailed
          else if dest_ip = 0 then Inl AssertionFailed
          else
            (case lookupRoutingTable (host P) sr dest_ip of
               None \<Rightarrow> Inr []
             | Some k \<Rightarrow>
                 let ip_datagram_total_len = (ucast (20 + icmp_msg_len) :: 16 word)
                 in (case malloc P (unat ip_datagram_total_len) of
                       None \<Rightarrow> Inl AssertionFailed
                     | Some fresh \<Rightarrow>
                         let hdr = setupIPHeaderForICMP P fresh ip_datagram_total_len src_ip dest_ip;
                             ip_datagram = \<lparr>dg_hdr = hdr, dg_data = take (unat icmp_msg_len) msg\<rparr>;
                             rt_entry_with_longest_prefix = routing_table sr ! k;
                             next_hop_ip = rt_gw rt_entry_with_longest_prefix;
                             interface = rt_interface rt_entry_with_longest_prefix
                         in (case sendIPDatagram P sr next_hop_ip interface ip_datagram None
                                    (ucast ip_datagram_total_len) of
                               Inl err \<Rightarrow> Inl err
                             | Inr (dg, evs) \<Rightarrow>
                                 Inr (Malloc (unat ip_datagram_total_len) # evs @ [Free])))))"

definition sendIcmpMessage ::
  "platform \<Rightarrow> sr_instance \<Rightarrow> 8 word list option \<Rightarrow> 32 word \<Rightarrow> 32 word \<Rightarrow> error + event list" where
  "sendIcmpMessage P sr icmp_message icmp_msg_len dest_ip =
     (if \<not> icmp_msg_len \<ge> MIN_ICMP_MSG_LEN P then Inl AssertionFailed
      else case icmp_message of
        None \<Rightarrow> Inl AssertionFailed
      | Some msg \<Rightarrow>
          if dest_ip = 0 then Inl AssertionFailed
          else
            (case if_list sr of
               [] \<Rightarrow> Inl AssertionFailed
             | iface # _ \<Rightarrow>
                 sendIcmpMessageWithSrcIP P sr icmp_message icmp_msg_len dest_ip (if_ip iface)))"

subsection \<open>Notions used to state the properties\<close>

text \<open>
  The three branches the description of \<open>handleIPDatagram\<close> names for a datagram that
  passed validation, written after the words of the description: local delivery when
  the destination is the address of some interface of the router, else forwarding when
  the TTL is not 0, else expiry.
\<close>

datatype branch = Local_delivery | Forward | Expired

definition spec_classify :: "sr_instance \<Rightarrow> ip \<Rightarrow> branch" where
  "spec_classify sr h =
     (if \<exists>iface \<in> set (if_list sr). if_ip iface = ip_dst h then Local_delivery
      else if ip_ttl h \<noteq> 0 then Forward
      else Expired)"

text \<open>
  Events that hand a frame to the link layer, events that hand a datagram to the
  buffer of datagrams waiting for address resolution, and the datagram an event
  carries.
\<close>

fun is_transmit :: "event \<Rightarrow> bool" where
  "is_transmit (SendEthFrameContainingIPDatagram m f dg i n) = True"
| "is_transmit (EthSendIPDatagram m dg i n) = True"
| "is_transmit ev = False"

fun is_enqueue :: "event \<Rightarrow> bool" where
  "is_enqueue (BufferIPDatagram nh dg i n) = True"
| "is_enqueue ev = False"

fun event_datagram :: "event \<Rightarrow> datagram option" where
  "event_datagram (SendEthFrameContainingIPDatagram m f dg i n) = Some dg"
| "event_datagram (EthSendIPDatagram m dg i n) = Some dg"
| "event_datagram (BufferIPDatagram nh dg i n) = Some dg"
| "event_datagram (Icmp_reply f dg n i) = Some dg"
| "event_datagram ev = None"

text \<open>
  The invariant of the loop of \<open>lookupRoutingTable\<close> after the entries \<open>pre\<close>: nothing
  is selected and no entry so far is a candidate, or the selected entry is the last of
  the candidates so far whose masked value is the largest, which \<open>longest_prefix\<close> holds.
\<close>

definition lookup_inv :: "endian \<Rightarrow> 32 word \<Rightarrow> sr_rt list \<Rightarrow> 32 word \<Rightarrow> nat option \<Rightarrow> bool" where
  "lookup_inv e d pre L b \<longleftrightarrow>
     (case b of
        None \<Rightarrow> L = 0 \<and> (\<forall>j<length pre. \<not> candidate e d (pre ! j))
      | Some k \<Rightarrow>
          k < length pre \<and> candidate e d (pre ! k) \<and> masked_value e d (pre ! k) = L \<and>
          (\<forall>j<length pre. candidate e d (pre ! j) \<longrightarrow>
             masked_value e d (pre ! j) \<le> L \<and> (masked_value e d (pre ! j) = L \<longrightarrow> j \<le> k)))"

subsection \<open>A router and datagrams to run the code on\<close>

text \<open>
  A router with two interfaces and the routes 10.0.0.0/8 and 10.0.1.0/24, a router
  whose table holds the route 10.0.0.0/8 twice, with two gateways, a platform whose
  address resolution always answers \<open>st\<close> and whose fresh memory is zeroed, and a
  28-byte UDP datagram from 192.168.0.7 with a given TTL and destination, whose
  checksum is the one \<open>csum\<close> computes.
\<close>

definition route_10_8 :: "endian \<Rightarrow> sr_rt" where
  "route_10_8 e =
     \<lparr>rt_dest = s_addr e 10 0 0 0, rt_gw = s_addr e 10 0 0 254,
      rt_mask = s_addr e 255 0 0 0, rt_interface = ''eth1''\<rparr>"

definition route_10_0_1_24 :: "endian \<Rightarrow> sr_rt" where
  "route_10_0_1_24 e =
     \<lparr>rt_dest = s_addr e 10 0 1 0, rt_gw = s_addr e 10 0 1 254,
      rt_mask = s_addr e 255 255 255 0, rt_interface = ''eth1''\<rparr>"

definition example_router :: "endian \<Rightarrow> sr_instance" where
  "example_router e =
     \<lparr>if_list =
        [\<lparr>if_name = ''eth0'', if_addr = [0, 1, 2, 3, 4, 5], if_ip = s_addr e 192 168 0 1\<rparr>,
         \<lparr>if_name = ''eth1'', if_addr = [0, 1, 2, 3, 4, 6], if_ip = s_addr e 10 0 0 1\<rparr>],
      routing_table = [route_10_8 e, route_10_0_1_24 e]\<rparr>"

definition example_tie_router :: "endian \<Rightarrow> sr_instance" where
  "example_tie_router e =
     \<lparr>if_list = [],
      routing_table =
        [route_10_8 e, route_10_0_1_24 e, (route_10_8 e)\<lparr>rt_gw := s_addr e 10 0 0 253\<rparr>]\<rparr>"

definition example_fresh_memory :: ip where
  "example_fresh_memory =
     \<lparr>ip_hl = 0, ip_v = 0, ip_tos = 0, ip_len = 0, ip_id = 0, ip_off = 0,
      ip_ttl = 0, ip_p = 0, ip_sum = 0, ip_src = 0, ip_dst = 0\<rparr>"

definition example_platform :: "endian \<Rightarrow> arp_status \<Rightarrow> platform" where
  "example_platform e st =
     \<lparr>host = e,
      resolveMAC = (\<lambda>sr nh iface. (st, [0, 1, 2, 3, 4, 7])),
      icmp_reply = (\<lambda>sr f dg n i. (0, dg)),
      malloc = (\<lambda>n. Some example_fresh_memory),
      DEFAULT_IP_TOS = 0,
      DEFAULT_IP_ID = 0,
      DEFAULT_IP_FRAGMENT = 0,
      DEFAULT_IP_TTL = 64,
      MIN_ICMP_MSG_LEN = 8,
      ICMP_REQUEST = 8\<rparr>"

definition example_header :: "endian \<Rightarrow> 8 word \<Rightarrow> 32 word \<Rightarrow> ip" where
  "example_header e ttl dst =
     \<lparr>ip_hl = 5, ip_v = 4, ip_tos = 0, ip_len = htons e 28, ip_id = 0, ip_off = 0,
      ip_ttl = ttl, ip_p = 17, ip_sum = 0, ip_src = s_addr e 192 168 0 7, ip_dst = dst\<rparr>"

definition example_datagram :: "endian \<Rightarrow> 8 word \<Rightarrow> 32 word \<Rightarrow> datagram" where
  "example_datagram e ttl dst =
     \<lparr>dg_hdr = (example_header e ttl dst)
                 \<lparr>ip_sum := csum e (ip_bytes e (example_header e ttl dst)) 20\<rparr>,
      dg_data = [0, 53, 0, 53, 0, 8, 0, 0]\<rparr>"

definition example_eth_header :: "8 word list" where
  "example_eth_header = [0, 1, 2, 3, 4, 5, 0, 1, 2, 3, 4, 9, 8, 0]"

section \<open>Properties\<close>

subsection \<open>Byte order and memory layout\<close>

lemma swap16_swap16: "swap16 (swap16 x) = x"
  unfolding swap16_def
  by (rule bit_word_eqI) (auto simp: bit_simps)

lemma ntohs_htons: "ntohs e (htons e x) = x"
  by (cases e) (simp_all add: ntohs_def htons_def swap16_swap16)

lemma length_ip_bytes: "length (ip_bytes e h) = 20"
  by (cases e) (simp_all add: ip_bytes_def bytes16_def bytes32_def)

lemma csum_header_only:
  "n \<le> 20 \<Longrightarrow> csum e (ip_bytes e h @ rest) n = csum e (ip_bytes e h) n"
  by (simp add: csum_def length_ip_bytes)

lemma unat_hl_le: "ip_hl h \<le> 5 \<Longrightarrow> 4 * unat (ip_hl h) \<le> 20"
  by (simp add: word_le_nat_alt)

subsection \<open>The loop of lookupRoutingTable keeps its invariant\<close>

lemma lookup_inv_step:
  assumes "lookup_inv e d pre L b"
  shows "candidate e d r \<and> L \<le> masked_value e d r \<Longrightarrow>
           lookup_inv e d (pre @ [r]) (masked_value e d r) (Some (length pre))"
    and "\<not> (candidate e d r \<and> L \<le> masked_value e d r) \<Longrightarrow> lookup_inv e d (pre @ [r]) L b"
  using assms
  by (auto simp: lookup_inv_def nth_append less_Suc_eq split: option.splits)

lemma lookup_loop_inv:
  "lookup_inv e d pre L b \<Longrightarrow>
   \<exists>L'. lookup_inv e d (pre @ rs) L' (lookupRoutingTable_loop e d rs (length pre) L b)"
proof (induction rs arbitrary: pre L b)
  case Nil
  then show ?case by auto
next
  case (Cons r rs)
  show ?case
  proof (cases "candidate e d r \<and> L \<le> masked_value e d r")
    case True
    from lookup_inv_step(1)[OF Cons.prems True]
    have "lookup_inv e d (pre @ [r]) (masked_value e d r) (Some (length pre))" .
    from Cons.IH[OF this] True show ?thesis
      by (simp add: candidate_def masked_value_def)
  next
    case False
    from lookup_inv_step(2)[OF Cons.prems False]
    have "lookup_inv e d (pre @ [r]) L b" .
    from Cons.IH[OF this] False show ?thesis
      by (auto simp add: candidate_def masked_value_def Let_def)
  qed
qed

lemma lookupRoutingTable_inv:
  "\<exists>L. lookup_inv e d (routing_table sr) L (lookupRoutingTable e sr d)"
  using lookup_loop_inv[of e d "[]" 0 None "routing_table sr"]
  by (simp add: lookupRoutingTable_def lookup_inv_def)

lemma lookupRoutingTable_None_iff:
  "lookupRoutingTable e sr d = None \<longleftrightarrow> (\<forall>r \<in> set (routing_table sr). \<not> candidate e d r)"
proof -
  from lookupRoutingTable_inv[of e d sr]
  obtain L where inv: "lookup_inv e d (routing_table sr) L (lookupRoutingTable e sr d)" ..
  show ?thesis
  proof (cases "lookupRoutingTable e sr d")
    case None
    with inv have "\<forall>j<length (routing_table sr). \<not> candidate e d (routing_table sr ! j)"
      by (simp add: lookup_inv_def)
    then have "\<forall>r \<in> set (routing_table sr). \<not> candidate e d r"
      by (auto simp: in_set_conv_nth)
    with None show ?thesis by simp
  next
    case (Some k)
    with inv have "k < length (routing_table sr)" "candidate e d (routing_table sr ! k)"
      by (simp_all add: lookup_inv_def)
    then have "\<exists>r \<in> set (routing_table sr). candidate e d r"
      using nth_mem by blast
    with Some show ?thesis by simp
  qed
qed

lemma lookupRoutingTable_Some:
  assumes "lookupRoutingTable e sr d = Some k"
  shows "k < length (routing_table sr)"
    and "candidate e d (routing_table sr ! k)"
    and "\<And>j. j < length (routing_table sr) \<Longrightarrow> candidate e d (routing_table sr ! j) \<Longrightarrow>
           masked_value e d (routing_table sr ! j) \<le> masked_value e d (routing_table sr ! k)"
    and "\<And>j. j < length (routing_table sr) \<Longrightarrow> candidate e d (routing_table sr ! j) \<Longrightarrow>
           masked_value e d (routing_table sr ! j) = masked_value e d (routing_table sr ! k) \<Longrightarrow>
           j \<le> k"
  using lookupRoutingTable_inv[of e d sr] assms
  by (auto simp: lookup_inv_def)

lemma lookup_examples:
  "lookupRoutingTable e \<lparr>if_list = ifs, routing_table = [route_10_8 e, route_10_0_1_24 e]\<rparr>
     (s_addr e 10 0 1 5) = Some 1"
  "lookupRoutingTable e \<lparr>if_list = ifs, routing_table = [route_10_8 e, route_10_0_1_24 e]\<rparr>
     (s_addr e 10 0 2 5) = Some 0"
  "lookupRoutingTable e \<lparr>if_list = ifs, routing_table = [route_10_8 e, route_10_0_1_24 e]\<rparr>
     (s_addr e 192 168 1 1) = None"
  "lookupRoutingTable e \<lparr>if_list = ifs, routing_table = [route_10_0_1_24 e, route_10_8 e]\<rparr>
     (s_addr e 10 0 1 5) = Some 0"
  "lookupRoutingTable e \<lparr>if_list = ifs, routing_table = [route_10_0_1_24 e, route_10_8 e]\<rparr>
     (s_addr e 10 0 2 5) = Some 1"
  "lookupRoutingTable e \<lparr>if_list = ifs, routing_table = [route_10_0_1_24 e, route_10_8 e]\<rparr>
     (s_addr e 192 168 1 1) = None"
  by (cases e; simp add: lookupRoutingTable_def ntohl_def s_addr_def swap32_def
        route_10_8_def route_10_0_1_24_def)+

subsection \<open>Classification, TTL and dispatch\<close>

lemma ipDatagramDestinedForMe_loop_iff:
  "ipDatagramDestinedForMe_loop ifs d \<longleftrightarrow> (\<exists>iface \<in> set ifs. if_ip iface = d)"
  by (induction ifs) auto

lemma ipDatagramDestinedForMe_iff:
  "ipDatagramDestinedForMe sr d \<longleftrightarrow> (\<exists>iface \<in> set (if_list sr). if_ip iface = d)"
  by (simp add: ipDatagramDestinedForMe_def ipDatagramDestinedForMe_loop_iff)

lemma ip_dec_ttl_Inr:
  assumes "ip_ttl (dg_hdr dg) \<noteq> 0"
  shows "ip_dec_ttl e dg =
           Inr (dg\<lparr>dg_hdr := (dg_hdr dg)
                  \<lparr>ip_ttl := ip_ttl (dg_hdr dg) - 1,
                   ip_sum := csum e (ip_bytes e ((dg_hdr dg)\<lparr>ip_ttl := ip_ttl (dg_hdr dg) - 1,
                                        ip_sum := 0\<rparr>) @ dg_data dg) (4 * unat (ip_hl (dg_hdr dg)))\<rparr>\<rparr>)"
  using assms by (simp add: ip_dec_ttl_def Let_def)

lemma sendIPDatagram_Inr:
  assumes "ip_dec_ttl (host P) dg = Inr dg'"
  shows "sendIPDatagram P sr nh ifn dg f n =
           Inr (dg', ResolveMAC nh (sr_get_interface sr ifn)
                       (fst (resolveMAC P sr nh (sr_get_interface sr ifn))) #
                 (case fst (resolveMAC P sr nh (sr_get_interface sr ifn)) of
                    ARP_RESOLVE_SUCCESS \<Rightarrow>
                      (case f of
                         Some fr \<Rightarrow> [SendEthFrameContainingIPDatagram
                                      (snd (resolveMAC P sr nh (sr_get_interface sr ifn))) fr dg'
                                      (sr_get_interface sr ifn) n]
                       | None \<Rightarrow> [EthSendIPDatagram
                                    (snd (resolveMAC P sr nh (sr_get_interface sr ifn))) dg'
                                    (sr_get_interface sr ifn) n])
                  | ARP_REQUEST_SENT \<Rightarrow>
                      [BufferIPDatagram nh dg' ifn n, Printf ''ip packet buffered\<newline>'']
                  | ARP_RESOLVE_FAIL \<Rightarrow>
                      [HandleUndeliverableBufferedIPDatagram nh (sr_get_interface sr ifn)]
                  | ARP_OTHER \<Rightarrow> []))"
  using assms
  by (cases "resolveMAC P sr nh (sr_get_interface sr ifn)")
     (simp add: sendIPDatagram_def Let_def split: arp_status.split option.split)

lemma sendIPDatagram_carries:
  assumes "sendIPDatagram P sr nh ifn dg f n = Inr (dg', evs)"
  shows "\<forall>ev \<in> set evs. \<forall>d. event_datagram ev = Some d \<longrightarrow> d = dg'"
proof -
  from assms obtain d0 where d0: "ip_dec_ttl (host P) dg = Inr d0"
    by (cases "ip_dec_ttl (host P) dg") (simp_all add: sendIPDatagram_def)
  from assms sendIPDatagram_Inr[OF d0, of sr nh ifn f n]
  show ?thesis
    by (cases "fst (resolveMAC P sr nh (sr_get_interface sr ifn))")
       (auto split: option.splits)
qed

subsection \<open>The example datagrams\<close>

lemma example_dec_ttl:
  "ttl \<noteq> 0 \<Longrightarrow> ip_dec_ttl e (example_datagram e ttl d) = Inr (example_datagram e (ttl - 1) d)"
  by (simp add: ip_dec_ttl_def example_datagram_def example_header_def Let_def csum_header_only)

lemma example_valid: "\<not> ipDatagramShouldBeDropped e (dg_hdr (example_datagram e ttl d))"
  by (simp add: ipDatagramShouldBeDropped_def example_datagram_def example_header_def
        ntohs_htons Let_def)

section \<open>The claims\<close>

subsection \<open>Routing table lookup\<close>

text \<open>
  Claim C1. For every routing table and destination address, \<open>lookupRoutingTable\<close>
  scans all entries; an entry is a candidate exactly when its destination and the
  destination address agree under the entry's mask, in host byte order; the lookup
  returns none exactly when no entry of the table is a candidate, and otherwise an entry
  of the table that is a candidate and whose masked value (the destination address
  under the entry's mask) is at least that of every candidate. With entries for
  10.0.0.0/8 and 10.0.1.0/24, in either order and on either kind of host, the lookup
  for 10.0.1.5 returns the /24 entry, for 10.0.2.5 the /8 entry, and for 192.168.1.1
  none.
\<close>

theorem lookupRoutingTable_maximal_candidate:
  "(candidate e d r \<longleftrightarrow>
      ntohl e (rt_dest r) AND ntohl e (rt_mask r) = ntohl e d AND ntohl e (rt_mask r)) \<and>
   (lookupRoutingTable e sr d = None \<longleftrightarrow> (\<forall>r \<in> set (routing_table sr). \<not> candidate e d r)) \<and>
   (\<forall>k. lookupRoutingTable e sr d = Some k \<longrightarrow>
      k < length (routing_table sr) \<and> candidate e d (routing_table sr ! k) \<and>
      (\<forall>r \<in> set (routing_table sr). candidate e d r \<longrightarrow>
         ntohl e d AND ntohl e (rt_mask r) \<le>
         ntohl e d AND ntohl e (rt_mask (routing_table sr ! k)))) \<and>
   lookupRoutingTable e \<lparr>if_list = ifs, routing_table = [route_10_8 e, route_10_0_1_24 e]\<rparr>
     (s_addr e 10 0 1 5) = Some 1 \<and>
   lookupRoutingTable e \<lparr>if_list = ifs, routing_table = [route_10_8 e, route_10_0_1_24 e]\<rparr>
     (s_addr e 10 0 2 5) = Some 0 \<and>
   lookupRoutingTable e \<lparr>if_list = ifs, routing_table = [route_10_8 e, route_10_0_1_24 e]\<rparr>
     (s_addr e 192 168 1 1) = None \<and>
   lookupRoutingTable e \<lparr>if_list = ifs, routing_table = [route_10_0_1_24 e, route_10_8 e]\<rparr>
     (s_addr e 10 0 1 5) = Some 0 \<and>
   lookupRoutingTable e \<lparr>if_list = ifs, routing_table = [route_10_0_1_24 e, route_10_8 e]\<rparr>
     (s_addr e 10 0 2 5) = Some 1 \<and>
   lookupRoutingTable e \<lparr>if_list = ifs, routing_table = [route_10_0_1_24 e, route_10_8 e]\<rparr>
     (s_addr e 192 168 1 1) = None"
proof -
  have cand: "candidate e d r \<longleftrightarrow>
      ntohl e (rt_dest r) AND ntohl e (rt_mask r) = ntohl e d AND ntohl e (rt_mask r)"
    by (simp add: candidate_def)
  have some: "\<forall>k. lookupRoutingTable e sr d = Some k \<longrightarrow>
      k < length (routing_table sr) \<and> candidate e d (routing_table sr ! k) \<and>
      (\<forall>r \<in> set (routing_table sr). candidate e d r \<longrightarrow>
         ntohl e d AND ntohl e (rt_mask r) \<le>
         ntohl e d AND ntohl e (rt_mask (routing_table sr ! k)))"
  proof (intro allI impI conjI ballI)
    fix k assume k: "lookupRoutingTable e sr d = Some k"
    show "k < length (routing_table sr)" "candidate e d (routing_table sr ! k)"
      using lookupRoutingTable_Some(1,2)[OF k] by simp_all
    fix r assume r: "r \<in> set (routing_table sr)" "candidate e d r"
    then obtain j where "j < length (routing_table sr)" "routing_table sr ! j = r"
      by (auto simp: in_set_conv_nth)
    with lookupRoutingTable_Some(3)[OF k, of j] r(2)
    show "ntohl e d AND ntohl e (rt_mask r) \<le>
          ntohl e d AND ntohl e (rt_mask (routing_table sr ! k))"
      by (simp add: masked_value_def)
  qed
  from cand lookupRoutingTable_None_iff[of e sr d] some lookup_examples[of e ifs]
  show ?thesis by blast
qed

text \<open>
  On a little-endian host, the lookup for 10.0.1.5 in the example router selects the
  entry at position 1, the /24 route; the /8 route is a candidate too, of a smaller
  masked value.
\<close>

theorem lookupRoutingTable_maximal_candidate_witness:
  "lookupRoutingTable LittleEndian (example_router LittleEndian) (s_addr LittleEndian 10 0 1 5) =
     Some 1 \<and>
   1 < length (routing_table (example_router LittleEndian)) \<and>
   candidate LittleEndian (s_addr LittleEndian 10 0 1 5)
     (routing_table (example_router LittleEndian) ! 1) \<and>
   candidate LittleEndian (s_addr LittleEndian 10 0 1 5) (route_10_8 LittleEndian) \<and>
   ntohl LittleEndian (s_addr LittleEndian 10 0 1 5) AND
     ntohl LittleEndian (rt_mask (route_10_8 LittleEndian)) \<le>
   ntohl LittleEndian (s_addr LittleEndian 10 0 1 5) AND
     ntohl LittleEndian (rt_mask (routing_table (example_router LittleEndian) ! 1))"
proof -
  have h: "lookupRoutingTable LittleEndian (example_router LittleEndian)
             (s_addr LittleEndian 10 0 1 5) = Some 1"
    by code_simp
  have m: "route_10_8 LittleEndian \<in> set (routing_table (example_router LittleEndian))"
    by (simp add: example_router_def)
  have c: "candidate LittleEndian (s_addr LittleEndian 10 0 1 5) (route_10_8 LittleEndian)"
    by code_simp
  from lookupRoutingTable_maximal_candidate
         [of LittleEndian "s_addr LittleEndian 10 0 1 5" _ "example_router LittleEndian"] h m c
  show ?thesis by blast
qed

text \<open>
  Claim C10. When entries of the table are candidates with the same largest masked
  value, \<open>lookupRoutingTable\<close> returns the last of them in the order of the table: for
  every candidate \<open>j\<close> whose masked value no candidate exceeds, the lookup returns an
  entry at a position not before \<open>j\<close>, which is a candidate with the masked value of
  \<open>j\<close>. The comparison with the best value so far is \<open>\<ge>\<close>, so a later entry with an
  equal value replaces an earlier one.
\<close>

theorem lookupRoutingTable_last_maximal:
  assumes "j < length (routing_table sr)"
    and "candidate e d (routing_table sr ! j)"
    and "\<forall>r \<in> set (routing_table sr). candidate e d r \<longrightarrow>
           masked_value e d r \<le> masked_value e d (routing_table sr ! j)"
  shows "\<exists>k. lookupRoutingTable e sr d = Some k \<and> j \<le> k \<and> k < length (routing_table sr) \<and>
             candidate e d (routing_table sr ! k) \<and>
             masked_value e d (routing_table sr ! k) = masked_value e d (routing_table sr ! j)"
proof -
  from assms(1,2) have "lookupRoutingTable e sr d \<noteq> None"
    by (auto simp: lookupRoutingTable_None_iff)
  then obtain k where k: "lookupRoutingTable e sr d = Some k" by auto
  note S = lookupRoutingTable_Some[OF k]
  from S(1) have "routing_table sr ! k \<in> set (routing_table sr)" by simp
  with assms(3) S(2)
  have "masked_value e d (routing_table sr ! k) \<le> masked_value e d (routing_table sr ! j)"
    by blast
  moreover from S(3)[OF assms(1,2)]
  have "masked_value e d (routing_table sr ! j) \<le> masked_value e d (routing_table sr ! k)" .
  ultimately have eq:
    "masked_value e d (routing_table sr ! k) = masked_value e d (routing_table sr ! j)"
    by simp
  from S(4)[OF assms(1,2)] eq have "j \<le> k" by simp
  with k S(1,2) eq show ?thesis by simp
qed

text \<open>
  The table of the second example router holds the route 10.0.0.0/8 at the positions 0
  and 2. Both are candidates for 10.0.2.5 with the largest masked value, and the lookup
  returns position 2.
\<close>

theorem lookupRoutingTable_last_maximal_witness:
  "0 < length (routing_table (example_tie_router BigEndian)) \<and>
   candidate BigEndian (s_addr BigEndian 10 0 2 5) (routing_table (example_tie_router BigEndian) ! 0) \<and>
   lookupRoutingTable BigEndian (example_tie_router BigEndian) (s_addr BigEndian 10 0 2 5) = Some 2 \<and>
   (\<exists>k. lookupRoutingTable BigEndian (example_tie_router BigEndian) (s_addr BigEndian 10 0 2 5) =
           Some k \<and> 0 \<le> k \<and>
        masked_value BigEndian (s_addr BigEndian 10 0 2 5)
          (routing_table (example_tie_router BigEndian) ! k) =
        masked_value BigEndian (s_addr BigEndian 10 0 2 5)
          (routing_table (example_tie_router BigEndian) ! 0))"
proof -
  have h1: "0 < length (routing_table (example_tie_router BigEndian))"
    by code_simp
  have h2: "candidate BigEndian (s_addr BigEndian 10 0 2 5)
              (routing_table (example_tie_router BigEndian) ! 0)"
    by code_simp
  have h3: "\<forall>r \<in> set (routing_table (example_tie_router BigEndian)).
      candidate BigEndian (s_addr BigEndian 10 0 2 5) r \<longrightarrow>
      masked_value BigEndian (s_addr BigEndian 10 0 2 5) r \<le>
      masked_value BigEndian (s_addr BigEndian 10 0 2 5)
        (routing_table (example_tie_router BigEndian) ! 0)"
    by code_simp
  have h4: "lookupRoutingTable BigEndian (example_tie_router BigEndian)
              (s_addr BigEndian 10 0 2 5) = Some 2"
    by code_simp
  from lookupRoutingTable_last_maximal[OF h1 h2 h3] h1 h2 h4
  show ?thesis by blast
qed

subsection \<open>Validation and classification\<close>

text \<open>
  Claim C2. For every IPv4 header, \<open>ipDatagramShouldBeDropped\<close> returns true if and
  only if the total length is less than 20, or the version is not 4, or the header
  length in words is more than 5, or the checksum recomputed over the
  \<open>4 * ip_hl\<close> bytes of the header with the checksum field zeroed differs from the
  stored checksum. The function works on its own copy of the header: the caller's
  datagram is as it was, checksum included, when \<open>handleIPDatagram\<close> drops it.
\<close>

theorem ipDatagramShouldBeDropped_iff:
  "(ipDatagramShouldBeDropped e h \<longleftrightarrow>
      ntohs e (ip_len h) < 20 \<or> ip_v h \<noteq> 4 \<or> ip_hl h > 5 \<or>
      csum e (ip_bytes e (h\<lparr>ip_sum := 0\<rparr>)) (4 * unat (ip_hl h)) \<noteq> ip_sum h) \<and>
   (ipDatagramShouldBeDropped (host P) (dg_hdr dg) \<longrightarrow>
      handleIPDatagram P sr f dg n = Inr (dg, []))"
  by (auto simp: ipDatagramShouldBeDropped_def handleIPDatagram_def Let_def)

text \<open>
  The example datagram passes all four checks; with the version set to 6 it is dropped,
  and \<open>handleIPDatagram\<close> returns it untouched.
\<close>

theorem ipDatagramShouldBeDropped_iff_witness:
  "\<not> ipDatagramShouldBeDropped LittleEndian
       (dg_hdr (example_datagram LittleEndian 5 (s_addr LittleEndian 10 0 1 5))) \<and>
   ipDatagramShouldBeDropped LittleEndian
     ((dg_hdr (example_datagram LittleEndian 5 (s_addr LittleEndian 10 0 1 5)))\<lparr>ip_v := 6\<rparr>) \<and>
   handleIPDatagram (example_platform LittleEndian ARP_RESOLVE_SUCCESS)
     (example_router LittleEndian) (Some example_eth_header)
     ((example_datagram LittleEndian 5 (s_addr LittleEndian 10 0 1 5))
        \<lparr>dg_hdr := (dg_hdr (example_datagram LittleEndian 5 (s_addr LittleEndian 10 0 1 5)))
                     \<lparr>ip_v := 6\<rparr>\<rparr>) 28 =
   Inr ((example_datagram LittleEndian 5 (s_addr LittleEndian 10 0 1 5))
          \<lparr>dg_hdr := (dg_hdr (example_datagram LittleEndian 5 (s_addr LittleEndian 10 0 1 5)))
                       \<lparr>ip_v := 6\<rparr>\<rparr>, [])"
proof -
  let ?h = "dg_hdr (example_datagram LittleEndian 5 (s_addr LittleEndian 10 0 1 5))"
  let ?P = "example_platform LittleEndian ARP_RESOLVE_SUCCESS"
  let ?bad = "(example_datagram LittleEndian 5 (s_addr LittleEndian 10 0 1 5))
                \<lparr>dg_hdr := ?h\<lparr>ip_v := 6\<rparr>\<rparr>"
  have a: "\<not> ntohs LittleEndian (ip_len ?h) < 20" by code_simp
  have b: "ip_v ?h = 4" by code_simp
  have c: "\<not> ip_hl ?h > 5" by code_simp
  have d: "csum LittleEndian (ip_bytes LittleEndian (?h\<lparr>ip_sum := 0\<rparr>)) (4 * unat (ip_hl ?h)) =
           ip_sum ?h"
    by code_simp
  have e: "ip_v (?h\<lparr>ip_v := 6\<rparr>) \<noteq> 4" by simp
  have host: "host ?P = LittleEndian" by (simp add: example_platform_def)
  have hdr: "dg_hdr ?bad = ?h\<lparr>ip_v := 6\<rparr>" by simp
  from ipDatagramShouldBeDropped_iff[of LittleEndian ?h] a b c d
  have good: "\<not> ipDatagramShouldBeDropped LittleEndian ?h" by blast
  from ipDatagramShouldBeDropped_iff
         [of LittleEndian "?h\<lparr>ip_v := 6\<rparr>" ?P ?bad "example_router LittleEndian"
             "Some example_eth_header" 28] e
  have bad: "ipDatagramShouldBeDropped LittleEndian (?h\<lparr>ip_v := 6\<rparr>)"
    and imp: "ipDatagramShouldBeDropped (host ?P) (dg_hdr ?bad) \<longrightarrow>
              handleIPDatagram ?P (example_router LittleEndian) (Some example_eth_header) ?bad 28 =
              Inr (?bad, [])"
    by blast+
  from bad imp have "handleIPDatagram ?P (example_router LittleEndian) (Some example_eth_header)
                       ?bad 28 = Inr (?bad, [])"
    unfolding host hdr by blast
  with good bad show ?thesis by blast
qed

text \<open>
  Claim C3. A received datagram that passes validation takes exactly one of three
  branches in \<open>handleIPDatagram\<close>: local delivery when its destination is the address of
  some interface of the router, whatever the TTL; otherwise forwarding when the TTL is
  not 0; otherwise (not local, TTL 0) the expired branch, in which the code does
  nothing.
\<close>

theorem handleIPDatagram_branches:
  assumes "\<not> ipDatagramShouldBeDropped (host P) (dg_hdr dg)"
  shows "handleIPDatagram P sr f dg n =
           (case spec_classify sr (dg_hdr dg) of
              Local_delivery \<Rightarrow> processIPDatagramDestinedForMe P sr f dg n
            | Forward \<Rightarrow> forward P sr f dg n
            | Expired \<Rightarrow> Inr (dg, []))"
  using assms
  by (simp add: handleIPDatagram_def spec_classify_def ipDatagramDestinedForMe_iff Let_def)

text \<open>
  A valid datagram for 10.0.0.1, the address of \<open>eth1\<close>, with TTL 0 is delivered
  locally.
\<close>

theorem handleIPDatagram_branches_witness:
  "\<not> ipDatagramShouldBeDropped (host (example_platform LittleEndian ARP_RESOLVE_SUCCESS))
       (dg_hdr (example_datagram LittleEndian 0 (s_addr LittleEndian 10 0 0 1))) \<and>
   spec_classify (example_router LittleEndian)
     (dg_hdr (example_datagram LittleEndian 0 (s_addr LittleEndian 10 0 0 1))) = Local_delivery \<and>
   handleIPDatagram (example_platform LittleEndian ARP_RESOLVE_SUCCESS)
     (example_router LittleEndian) (Some example_eth_header)
     (example_datagram LittleEndian 0 (s_addr LittleEndian 10 0 0 1)) 28 =
   processIPDatagramDestinedForMe (example_platform LittleEndian ARP_RESOLVE_SUCCESS)
     (example_router LittleEndian) (Some example_eth_header)
     (example_datagram LittleEndian 0 (s_addr LittleEndian 10 0 0 1)) 28"
proof -
  have h: "\<not> ipDatagramShouldBeDropped (host (example_platform LittleEndian ARP_RESOLVE_SUCCESS))
               (dg_hdr (example_datagram LittleEndian 0 (s_addr LittleEndian 10 0 0 1)))"
    by (simp add: example_platform_def example_valid)
  have c: "spec_classify (example_router LittleEndian)
             (dg_hdr (example_datagram LittleEndian 0 (s_addr LittleEndian 10 0 0 1))) =
           Local_delivery"
    by code_simp
  from handleIPDatagram_branches
         [OF h, of "example_router LittleEndian" "Some example_eth_header" 28] h c
  show ?thesis by simp
qed

subsection \<open>TTL and forwarding\<close>

text \<open>
  Claim C4, as the code has it. A valid received datagram with TTL 1 whose destination
  is not the address of any interface of the router takes the forward branch of
  \<open>handleIPDatagram\<close>, whose test is \<open>ip_ttl != 0\<close>: the routing table is looked up;
  when no entry matches nothing more is done, and when an entry matches the datagram
  itself goes through \<open>sendIPDatagram\<close>, which sets its TTL to 0 and asks for the
  resolution of the next hop. Every datagram an event of the run carries is the received
  one with TTL 0: no ICMP message is built or sent.
\<close>

theorem handleIPDatagram_ttl1_forwards:
  assumes "\<not> ipDatagramShouldBeDropped (host P) (dg_hdr dg)"
    and "ip_ttl (dg_hdr dg) = 1"
    and "\<not> (\<exists>iface \<in> set (if_list sr). if_ip iface = ip_dst (dg_hdr dg))"
  shows "handleIPDatagram P sr f dg n = forward P sr f dg n \<and>
         (case lookupRoutingTable (host P) sr (ip_dst (dg_hdr dg)) of
            None \<Rightarrow> handleIPDatagram P sr f dg n = Inr (dg, [])
          | Some k \<Rightarrow>
              \<exists>dg' evs.
                handleIPDatagram P sr f dg n =
                  sendIPDatagram P sr (rt_gw (routing_table sr ! k))
                    (rt_interface (routing_table sr ! k)) dg f n \<and>
                handleIPDatagram P sr f dg n =
                  Inr (dg', ResolveMAC (rt_gw (routing_table sr ! k))
                              (sr_get_interface sr (rt_interface (routing_table sr ! k)))
                              (fst (resolveMAC P sr (rt_gw (routing_table sr ! k))
                                 (sr_get_interface sr (rt_interface (routing_table sr ! k))))) # evs) \<and>
                ip_ttl (dg_hdr dg') = 0 \<and>
                (\<forall>ev \<in> set evs. \<forall>d. event_datagram ev = Some d \<longrightarrow> d = dg'))"
proof -
  have fwd: "handleIPDatagram P sr f dg n = forward P sr f dg n"
    using assms by (simp add: handleIPDatagram_def ipDatagramDestinedForMe_iff Let_def)
  show ?thesis
  proof (cases "lookupRoutingTable (host P) sr (ip_dst (dg_hdr dg))")
    case None
    with fwd show ?thesis by (simp add: forward_def)
  next
    case (Some k)
    let ?nh = "rt_gw (routing_table sr ! k)"
    let ?ifn = "rt_interface (routing_table sr ! k)"
    from assms(2) have nz: "ip_ttl (dg_hdr dg) \<noteq> 0" by simp
    obtain dg' where dec: "ip_dec_ttl (host P) dg = Inr dg'" and ttl: "ip_ttl (dg_hdr dg') = 0"
      using ip_dec_ttl_Inr[OF nz, of "host P"] assms(2) by simp
    from sendIPDatagram_Inr[OF dec, of sr ?nh ?ifn f n]
    obtain evs where send: "sendIPDatagram P sr ?nh ?ifn dg f n =
        Inr (dg', ResolveMAC ?nh (sr_get_interface sr ?ifn)
                    (fst (resolveMAC P sr ?nh (sr_get_interface sr ?ifn))) # evs)"
      by blast
    from sendIPDatagram_carries[OF send]
    have carried: "\<forall>ev \<in> set evs. \<forall>d. event_datagram ev = Some d \<longrightarrow> d = dg'"
      by simp
    have h: "handleIPDatagram P sr f dg n = sendIPDatagram P sr ?nh ?ifn dg f n"
      using fwd Some by (simp add: forward_def Let_def)
    have h2: "handleIPDatagram P sr f dg n =
        Inr (dg', ResolveMAC ?nh (sr_get_interface sr ?ifn)
                    (fst (resolveMAC P sr ?nh (sr_get_interface sr ?ifn))) # evs)"
      using h send by (rule trans)
    have "\<exists>dg' evs.
            handleIPDatagram P sr f dg n = sendIPDatagram P sr ?nh ?ifn dg f n \<and>
            handleIPDatagram P sr f dg n =
              Inr (dg', ResolveMAC ?nh (sr_get_interface sr ?ifn)
                          (fst (resolveMAC P sr ?nh (sr_get_interface sr ?ifn))) # evs) \<and>
            ip_ttl (dg_hdr dg') = 0 \<and>
            (\<forall>ev \<in> set evs. \<forall>d. event_datagram ev = Some d \<longrightarrow> d = dg')"
      using h h2 ttl carried by blast
    with fwd show ?thesis unfolding Some option.case by (rule conjI)
  qed
qed

text \<open>
  The example datagram for 10.0.1.5 with TTL 1 at the example router: it is valid, not
  local, and handled by \<open>forward\<close>.
\<close>

theorem handleIPDatagram_ttl1_forwards_witness:
  "\<not> ipDatagramShouldBeDropped (host (example_platform LittleEndian ARP_RESOLVE_SUCCESS))
       (dg_hdr (example_datagram LittleEndian 1 (s_addr LittleEndian 10 0 1 5))) \<and>
   ip_ttl (dg_hdr (example_datagram LittleEndian 1 (s_addr LittleEndian 10 0 1 5))) = 1 \<and>
   \<not> (\<exists>iface \<in> set (if_list (example_router LittleEndian)).
        if_ip iface = ip_dst (dg_hdr (example_datagram LittleEndian 1 (s_addr LittleEndian 10 0 1 5)))) \<and>
   handleIPDatagram (example_platform LittleEndian ARP_RESOLVE_SUCCESS)
     (example_router LittleEndian) (Some example_eth_header)
     (example_datagram LittleEndian 1 (s_addr LittleEndian 10 0 1 5)) 28 =
   forward (example_platform LittleEndian ARP_RESOLVE_SUCCESS)
     (example_router LittleEndian) (Some example_eth_header)
     (example_datagram LittleEndian 1 (s_addr LittleEndian 10 0 1 5)) 28"
proof -
  have h1: "\<not> ipDatagramShouldBeDropped (host (example_platform LittleEndian ARP_RESOLVE_SUCCESS))
                (dg_hdr (example_datagram LittleEndian 1 (s_addr LittleEndian 10 0 1 5)))"
    by (simp add: example_platform_def example_valid)
  have h2: "ip_ttl (dg_hdr (example_datagram LittleEndian 1 (s_addr LittleEndian 10 0 1 5))) = 1"
    by (simp add: example_datagram_def example_header_def)
  have h3: "\<not> (\<exists>iface \<in> set (if_list (example_router LittleEndian)).
        if_ip iface = ip_dst (dg_hdr (example_datagram LittleEndian 1 (s_addr LittleEndian 10 0 1 5))))"
    by code_simp
  from handleIPDatagram_ttl1_forwards[OF h1 h2 h3, of "Some example_eth_header" 28] h1 h2 h3
  show ?thesis by blast
qed

text \<open>
  Claim C4 as stated fails. The example datagram for 10.0.1.5 with TTL 1 is valid and
  not addressed to the router; \<open>handleIPDatagram\<close> looks up its route, asks for the
  address of the next hop 10.0.1.254 and hands the frame, with TTL 0, to the link layer.
  No ICMP message is sent.
\<close>

theorem handleIPDatagram_ttl1_counterexample:
  "\<not> ipDatagramShouldBeDropped LittleEndian
       (dg_hdr (example_datagram LittleEndian 1 (s_addr LittleEndian 10 0 1 5))) \<and>
   ip_ttl (dg_hdr (example_datagram LittleEndian 1 (s_addr LittleEndian 10 0 1 5))) = 1 \<and>
   \<not> ipDatagramDestinedForMe (example_router LittleEndian)
       (ip_dst (dg_hdr (example_datagram LittleEndian 1 (s_addr LittleEndian 10 0 1 5)))) \<and>
   handleIPDatagram (example_platform LittleEndian ARP_RESOLVE_SUCCESS)
     (example_router LittleEndian) (Some example_eth_header)
     (example_datagram LittleEndian 1 (s_addr LittleEndian 10 0 1 5)) 28 =
   Inr (example_datagram LittleEndian 0 (s_addr LittleEndian 10 0 1 5),
        [ResolveMAC (s_addr LittleEndian 10 0 1 254)
           (sr_get_interface (example_router LittleEndian) ''eth1'') ARP_RESOLVE_SUCCESS,
         SendEthFrameContainingIPDatagram [0, 1, 2, 3, 4, 7] example_eth_header
           (example_datagram LittleEndian 0 (s_addr LittleEndian 10 0 1 5))
           (sr_get_interface (example_router LittleEndian) ''eth1'') 28])"
proof -
  have a: "\<not> ipDatagramShouldBeDropped LittleEndian
       (dg_hdr (example_datagram LittleEndian 1 (s_addr LittleEndian 10 0 1 5)))"
    by (rule example_valid)
  have b: "ip_ttl (dg_hdr (example_datagram LittleEndian 1 (s_addr LittleEndian 10 0 1 5))) = 1"
    by (simp add: example_datagram_def example_header_def)
  have c: "\<not> ipDatagramDestinedForMe (example_router LittleEndian)
       (ip_dst (dg_hdr (example_datagram LittleEndian 1 (s_addr LittleEndian 10 0 1 5))))"
    by code_simp
  have d: "handleIPDatagram (example_platform LittleEndian ARP_RESOLVE_SUCCESS)
     (example_router LittleEndian) (Some example_eth_header)
     (example_datagram LittleEndian 1 (s_addr LittleEndian 10 0 1 5)) 28 =
   Inr (example_datagram LittleEndian 0 (s_addr LittleEndian 10 0 1 5),
        [ResolveMAC (s_addr LittleEndian 10 0 1 254)
           (sr_get_interface (example_router LittleEndian) ''eth1'') ARP_RESOLVE_SUCCESS,
         SendEthFrameContainingIPDatagram [0, 1, 2, 3, 4, 7] example_eth_header
           (example_datagram LittleEndian 0 (s_addr LittleEndian 10 0 1 5))
           (sr_get_interface (example_router LittleEndian) ''eth1'') 28])"
    by code_simp
  from a b c d show ?thesis by blast
qed

text \<open>
  Claim C5, as the code has it. A valid datagram classified as Forward is looked up in
  the routing table with the header it arrived with. When an entry matches, the datagram
  goes through \<open>sendIPDatagram\<close>, where \<open>ip_dec_ttl\<close> decrements its TTL, which is not 0,
  once, before the address resolution and before any transmission or buffering: the
  datagram left in the buffer and every datagram an event carries have the TTL it
  arrived with minus 1. When no entry matches, the datagram is not dispatched and its
  TTL is not decremented.
\<close>

theorem forward_decrements_ttl_in_dispatch:
  assumes "\<not> ipDatagramShouldBeDropped (host P) (dg_hdr dg)"
    and "spec_classify sr (dg_hdr dg) = Forward"
  shows "case lookupRoutingTable (host P) sr (ip_dst (dg_hdr dg)) of
           None \<Rightarrow> handleIPDatagram P sr f dg n = Inr (dg, [])
         | Some k \<Rightarrow>
             \<exists>dg' evs.
               handleIPDatagram P sr f dg n = Inr (dg', evs) \<and>
               sendIPDatagram P sr (rt_gw (routing_table sr ! k))
                 (rt_interface (routing_table sr ! k)) dg f n = Inr (dg', evs) \<and>
               ip_dec_ttl (host P) dg = Inr dg' \<and>
               ip_ttl (dg_hdr dg) \<noteq> 0 \<and>
               ip_ttl (dg_hdr dg') = ip_ttl (dg_hdr dg) - 1 \<and>
               (\<forall>ev \<in> set evs. \<forall>d. event_datagram ev = Some d \<longrightarrow> d = dg')"
proof -
  from assms(2) have nz: "ip_ttl (dg_hdr dg) \<noteq> 0"
    and notme: "\<not> ipDatagramDestinedForMe sr (ip_dst (dg_hdr dg))"
    by (auto simp: spec_classify_def ipDatagramDestinedForMe_iff split: if_splits)
  have fwd: "handleIPDatagram P sr f dg n = forward P sr f dg n"
    using assms(1) nz notme by (simp add: handleIPDatagram_def Let_def)
  show ?thesis
  proof (cases "lookupRoutingTable (host P) sr (ip_dst (dg_hdr dg))")
    case None
    with fwd show ?thesis by (simp add: forward_def)
  next
    case (Some k)
    let ?nh = "rt_gw (routing_table sr ! k)"
    let ?ifn = "rt_interface (routing_table sr ! k)"
    obtain dg' where dec: "ip_dec_ttl (host P) dg = Inr dg'"
      and ttl: "ip_ttl (dg_hdr dg') = ip_ttl (dg_hdr dg) - 1"
      using ip_dec_ttl_Inr[OF nz, of "host P"] by simp
    from sendIPDatagram_Inr[OF dec, of sr ?nh ?ifn f n]
    obtain evs where send: "sendIPDatagram P sr ?nh ?ifn dg f n = Inr (dg', evs)"
      by blast
    from sendIPDatagram_carries[OF send]
    have carried: "\<forall>ev \<in> set evs. \<forall>d. event_datagram ev = Some d \<longrightarrow> d = dg'" .
    have "handleIPDatagram P sr f dg n = sendIPDatagram P sr ?nh ?ifn dg f n"
      using fwd Some by (simp add: forward_def Let_def)
    then have "handleIPDatagram P sr f dg n = Inr (dg', evs)"
      using send by (rule trans)
    with send dec ttl nz carried show ?thesis unfolding Some option.case by blast
  qed
qed

text \<open>
  The example datagram for 10.0.1.5 with TTL 5 is forwarded by the route at position 1
  and leaves with TTL 4.
\<close>

theorem forward_decrements_ttl_in_dispatch_witness:
  "\<not> ipDatagramShouldBeDropped (host (example_platform BigEndian ARP_RESOLVE_SUCCESS))
       (dg_hdr (example_datagram BigEndian 5 (s_addr BigEndian 10 0 1 5))) \<and>
   spec_classify (example_router BigEndian)
     (dg_hdr (example_datagram BigEndian 5 (s_addr BigEndian 10 0 1 5))) = Forward \<and>
   lookupRoutingTable (host (example_platform BigEndian ARP_RESOLVE_SUCCESS))
     (example_router BigEndian)
     (ip_dst (dg_hdr (example_datagram BigEndian 5 (s_addr BigEndian 10 0 1 5)))) = Some 1 \<and>
   (\<exists>dg' evs.
      handleIPDatagram (example_platform BigEndian ARP_RESOLVE_SUCCESS)
        (example_router BigEndian) (Some example_eth_header)
        (example_datagram BigEndian 5 (s_addr BigEndian 10 0 1 5)) 28 = Inr (dg', evs) \<and>
      ip_ttl (dg_hdr dg') = 4)"
proof -
  let ?P = "example_platform BigEndian ARP_RESOLVE_SUCCESS"
  let ?D = "example_datagram BigEndian 5 (s_addr BigEndian 10 0 1 5)"
  have h1: "\<not> ipDatagramShouldBeDropped (host ?P) (dg_hdr ?D)"
    by (simp add: example_platform_def example_valid)
  have h2: "spec_classify (example_router BigEndian) (dg_hdr ?D) = Forward"
    by code_simp
  have l: "lookupRoutingTable (host ?P) (example_router BigEndian) (ip_dst (dg_hdr ?D)) = Some 1"
    by code_simp
  have t: "ip_ttl (dg_hdr ?D) - 1 = 4"
    by (simp add: example_datagram_def example_header_def)
  from forward_decrements_ttl_in_dispatch[OF h1 h2, of "Some example_eth_header" 28]
  have "\<exists>dg' evs.
          handleIPDatagram ?P (example_router BigEndian) (Some example_eth_header) ?D 28 =
            Inr (dg', evs) \<and>
          ip_ttl (dg_hdr dg') = ip_ttl (dg_hdr ?D) - 1"
    unfolding l option.case by blast
  then have "\<exists>dg' evs.
          handleIPDatagram ?P (example_router BigEndian) (Some example_eth_header) ?D 28 =
            Inr (dg', evs) \<and>
          ip_ttl (dg_hdr dg') = 4"
    unfolding t .
  with h1 h2 l show ?thesis by blast
qed

text \<open>
  Claim C5 as stated fails. The example datagram for 172.16.0.9 with TTL 5 is valid and
  classified as Forward, and no route of the example router matches it:
  \<open>handleIPDatagram\<close> returns it as it came, with TTL 5, and nothing is dispatched.
\<close>

theorem forward_no_route_ttl_counterexample:
  "\<not> ipDatagramShouldBeDropped LittleEndian
       (dg_hdr (example_datagram LittleEndian 5 (s_addr LittleEndian 172 16 0 9))) \<and>
   spec_classify (example_router LittleEndian)
     (dg_hdr (example_datagram LittleEndian 5 (s_addr LittleEndian 172 16 0 9))) = Forward \<and>
   ip_ttl (dg_hdr (example_datagram LittleEndian 5 (s_addr LittleEndian 172 16 0 9))) = 5 \<and>
   handleIPDatagram (example_platform LittleEndian ARP_RESOLVE_SUCCESS)
     (example_router LittleEndian) (Some example_eth_header)
     (example_datagram LittleEndian 5 (s_addr LittleEndian 172 16 0 9)) 28 =
   Inr (example_datagram LittleEndian 5 (s_addr LittleEndian 172 16 0 9), [])"
proof -
  have a: "\<not> ipDatagramShouldBeDropped LittleEndian
       (dg_hdr (example_datagram LittleEndian 5 (s_addr LittleEndian 172 16 0 9)))"
    by (rule example_valid)
  have b: "spec_classify (example_router LittleEndian)
     (dg_hdr (example_datagram LittleEndian 5 (s_addr LittleEndian 172 16 0 9))) = Forward"
    by code_simp
  have c: "ip_ttl (dg_hdr (example_datagram LittleEndian 5 (s_addr LittleEndian 172 16 0 9))) = 5"
    by (simp add: example_datagram_def example_header_def)
  have d: "handleIPDatagram (example_platform LittleEndian ARP_RESOLVE_SUCCESS)
     (example_router LittleEndian) (Some example_eth_header)
     (example_datagram LittleEndian 5 (s_addr LittleEndian 172 16 0 9)) 28 =
   Inr (example_datagram LittleEndian 5 (s_addr LittleEndian 172 16 0 9), [])"
    by code_simp
  from a b c d show ?thesis by blast
qed

subsection \<open>The dispatcher\<close>

text \<open>
  Claim C6. For every datagram with TTL greater than 0 handed to \<open>sendIPDatagram\<close>, the
  first step, \<open>ip_dec_ttl\<close>, succeeds and leaves a header whose TTL is the original TTL
  minus 1 and whose checksum field is the checksum computed afresh over the
  \<open>4 * ip_hl\<close> bytes of the modified header with the checksum field zeroed; no other
  field and no byte after the header changes, and this is the datagram the rest of the
  dispatch works with. A header that passed validation passes it again after the step.
\<close>

theorem ip_dec_ttl_decrements_and_checksums:
  assumes "0 < ip_ttl (dg_hdr dg)"
  shows "\<exists>dg'. ip_dec_ttl (host P) dg = Inr dg' \<and>
           (\<exists>evs. sendIPDatagram P sr nh ifn dg f n = Inr (dg', evs)) \<and>
           unat (ip_ttl (dg_hdr dg')) = unat (ip_ttl (dg_hdr dg)) - 1 \<and>
           ip_sum (dg_hdr dg') =
             csum (host P) (ip_bytes (host P) ((dg_hdr dg')\<lparr>ip_sum := 0\<rparr>) @ dg_data dg')
               (4 * unat (ip_hl (dg_hdr dg'))) \<and>
           (dg_hdr dg')\<lparr>ip_ttl := ip_ttl (dg_hdr dg), ip_sum := ip_sum (dg_hdr dg)\<rparr> = dg_hdr dg \<and>
           dg_data dg' = dg_data dg \<and>
           (\<not> ipDatagramShouldBeDropped (host P) (dg_hdr dg) \<longrightarrow>
              \<not> ipDatagramShouldBeDropped (host P) (dg_hdr dg'))"
proof -
  from assms have nz: "ip_ttl (dg_hdr dg) \<noteq> 0" by auto
  define dg' where "dg' = dg\<lparr>dg_hdr := (dg_hdr dg)
      \<lparr>ip_ttl := ip_ttl (dg_hdr dg) - 1,
       ip_sum := csum (host P)
                   (ip_bytes (host P) ((dg_hdr dg)\<lparr>ip_ttl := ip_ttl (dg_hdr dg) - 1,
                                                    ip_sum := 0\<rparr>) @ dg_data dg)
                   (4 * unat (ip_hl (dg_hdr dg)))\<rparr>\<rparr>"
  have dec: "ip_dec_ttl (host P) dg = Inr dg'"
    unfolding dg'_def by (rule ip_dec_ttl_Inr[OF nz])
  have send: "\<exists>evs. sendIPDatagram P sr nh ifn dg f n = Inr (dg', evs)"
    using sendIPDatagram_Inr[OF dec] by blast
  have ttl: "unat (ip_ttl (dg_hdr dg')) = unat (ip_ttl (dg_hdr dg)) - 1"
    using nz by (simp add: dg'_def unat_minus_one)
  have sum: "ip_sum (dg_hdr dg') =
             csum (host P) (ip_bytes (host P) ((dg_hdr dg')\<lparr>ip_sum := 0\<rparr>) @ dg_data dg')
               (4 * unat (ip_hl (dg_hdr dg')))"
    by (simp add: dg'_def)
  have frame: "(dg_hdr dg')\<lparr>ip_ttl := ip_ttl (dg_hdr dg), ip_sum := ip_sum (dg_hdr dg)\<rparr> = dg_hdr dg"
    "dg_data dg' = dg_data dg"
    by (simp_all add: dg'_def)
  have valid: "\<not> ipDatagramShouldBeDropped (host P) (dg_hdr dg')"
    if "\<not> ipDatagramShouldBeDropped (host P) (dg_hdr dg)"
  proof -
    from that have a: "\<not> ntohs (host P) (ip_len (dg_hdr dg)) < 20" "ip_v (dg_hdr dg) = 4"
        "ip_hl (dg_hdr dg) \<le> 5"
      by (auto simp: ipDatagramShouldBeDropped_def split: if_splits)
    from a(3) have "4 * unat (ip_hl (dg_hdr dg)) \<le> 20" by (rule unat_hl_le)
    then show ?thesis
      using a by (simp add: ipDatagramShouldBeDropped_def dg'_def csum_header_only)
  qed
  from dec send ttl sum frame valid show ?thesis by blast
qed

text \<open>
  The example datagram with TTL 5 leaves \<open>ip_dec_ttl\<close> as the example datagram with TTL
  4, whose checksum is the one of its header, and is valid.
\<close>

theorem ip_dec_ttl_decrements_and_checksums_witness:
  "0 < ip_ttl (dg_hdr (example_datagram LittleEndian 5 (s_addr LittleEndian 10 0 1 5))) \<and>
   ip_dec_ttl LittleEndian (example_datagram LittleEndian 5 (s_addr LittleEndian 10 0 1 5)) =
     Inr (example_datagram LittleEndian 4 (s_addr LittleEndian 10 0 1 5)) \<and>
   (\<exists>dg'. ip_dec_ttl (host (example_platform LittleEndian ARP_REQUEST_SENT))
            (example_datagram LittleEndian 5 (s_addr LittleEndian 10 0 1 5)) = Inr dg' \<and>
          unat (ip_ttl (dg_hdr dg')) = 4 \<and>
          \<not> ipDatagramShouldBeDropped (host (example_platform LittleEndian ARP_REQUEST_SENT))
              (dg_hdr dg'))"
proof -
  let ?P = "example_platform LittleEndian ARP_REQUEST_SENT"
  let ?D = "example_datagram LittleEndian 5 (s_addr LittleEndian 10 0 1 5)"
  have h: "0 < ip_ttl (dg_hdr ?D)"
    by (simp add: example_datagram_def example_header_def)
  have v: "\<not> ipDatagramShouldBeDropped (host ?P) (dg_hdr ?D)"
    by (simp add: example_platform_def example_valid)
  have t: "unat (ip_ttl (dg_hdr ?D)) - 1 = 4"
    by (simp add: example_datagram_def example_header_def)
  have d: "ip_dec_ttl LittleEndian ?D =
             Inr (example_datagram LittleEndian 4 (s_addr LittleEndian 10 0 1 5))"
    using example_dec_ttl[of 5 LittleEndian "s_addr LittleEndian 10 0 1 5"] by simp
  from ip_dec_ttl_decrements_and_checksums[OF h, of ?P] v
  have "\<exists>dg'. ip_dec_ttl (host ?P) ?D = Inr dg' \<and>
          unat (ip_ttl (dg_hdr dg')) = unat (ip_ttl (dg_hdr ?D)) - 1 \<and>
          \<not> ipDatagramShouldBeDropped (host ?P) (dg_hdr dg')"
    by blast
  then have "\<exists>dg'. ip_dec_ttl (host ?P) ?D = Inr dg' \<and>
          unat (ip_ttl (dg_hdr dg')) = 4 \<and>
          \<not> ipDatagramShouldBeDropped (host ?P) (dg_hdr dg')"
    unfolding t .
  with h d show ?thesis by blast
qed

text \<open>
  Claim C9. Whenever a run of \<open>sendIPDatagram\<close> got the answer \<open>ARP_REQUEST_SENT\<close> from
  the address resolution, it made no call that transmits and exactly one call of
  \<open>bufferIPDatagram\<close>, with the next-hop address that was passed to the resolution, the
  datagram with its TTL decremented, the name of the interface and the length; it then
  printed a line and returned.
\<close>

theorem sendIPDatagram_pending_enqueues:
  assumes "sendIPDatagram P sr nh ifn dg f n = Inr (dg', evs)"
    and "ResolveMAC nh' i' ARP_REQUEST_SENT \<in> set evs"
  shows "filter is_transmit evs = [] \<and>
         filter is_enqueue evs = [BufferIPDatagram nh dg' ifn n] \<and>
         evs = [ResolveMAC nh (sr_get_interface sr ifn) ARP_REQUEST_SENT,
                BufferIPDatagram nh dg' ifn n, Printf ''ip packet buffered\<newline>'']"
proof -
  from assms(1) obtain d0 where d0: "ip_dec_ttl (host P) dg = Inr d0"
    by (cases "ip_dec_ttl (host P) dg") (simp_all add: sendIPDatagram_def)
  from assms sendIPDatagram_Inr[OF d0, of sr nh ifn f n]
  show ?thesis
    by (cases "fst (resolveMAC P sr nh (sr_get_interface sr ifn))")
       (auto split: option.splits)
qed

text \<open>
  With a resolution that answers \<open>ARP_REQUEST_SENT\<close>, the dispatch of the example
  datagram with TTL 5 to the next hop 10.0.1.254 buffers the datagram with TTL 4 under
  this address and transmits nothing.
\<close>

theorem sendIPDatagram_pending_enqueues_witness:
  "sendIPDatagram (example_platform BigEndian ARP_REQUEST_SENT) (example_router BigEndian)
     (s_addr BigEndian 10 0 1 254) ''eth1''
     (example_datagram BigEndian 5 (s_addr BigEndian 10 0 1 5)) (Some example_eth_header) 28 =
   Inr (example_datagram BigEndian 4 (s_addr BigEndian 10 0 1 5),
        [ResolveMAC (s_addr BigEndian 10 0 1 254)
           (sr_get_interface (example_router BigEndian) ''eth1'') ARP_REQUEST_SENT,
         BufferIPDatagram (s_addr BigEndian 10 0 1 254)
           (example_datagram BigEndian 4 (s_addr BigEndian 10 0 1 5)) ''eth1'' 28,
         Printf ''ip packet buffered\<newline>'']) \<and>
   filter is_transmit
     [ResolveMAC (s_addr BigEndian 10 0 1 254)
        (sr_get_interface (example_router BigEndian) ''eth1'') ARP_REQUEST_SENT,
      BufferIPDatagram (s_addr BigEndian 10 0 1 254)
        (example_datagram BigEndian 4 (s_addr BigEndian 10 0 1 5)) ''eth1'' 28,
      Printf ''ip packet buffered\<newline>''] = [] \<and>
   filter is_enqueue
     [ResolveMAC (s_addr BigEndian 10 0 1 254)
        (sr_get_interface (example_router BigEndian) ''eth1'') ARP_REQUEST_SENT,
      BufferIPDatagram (s_addr BigEndian 10 0 1 254)
        (example_datagram BigEndian 4 (s_addr BigEndian 10 0 1 5)) ''eth1'' 28,
      Printf ''ip packet buffered\<newline>''] =
   [BufferIPDatagram (s_addr BigEndian 10 0 1 254)
      (example_datagram BigEndian 4 (s_addr BigEndian 10 0 1 5)) ''eth1'' 28]"
proof -
  let ?evs = "[ResolveMAC (s_addr BigEndian 10 0 1 254)
        (sr_get_interface (example_router BigEndian) ''eth1'') ARP_REQUEST_SENT,
      BufferIPDatagram (s_addr BigEndian 10 0 1 254)
        (example_datagram BigEndian 4 (s_addr BigEndian 10 0 1 5)) ''eth1'' 28,
      Printf ''ip packet buffered\<newline>'']"
  have h1: "sendIPDatagram (example_platform BigEndian ARP_REQUEST_SENT) (example_router BigEndian)
     (s_addr BigEndian 10 0 1 254) ''eth1''
     (example_datagram BigEndian 5 (s_addr BigEndian 10 0 1 5)) (Some example_eth_header) 28 =
   Inr (example_datagram BigEndian 4 (s_addr BigEndian 10 0 1 5), ?evs)"
    by code_simp
  have h2: "ResolveMAC (s_addr BigEndian 10 0 1 254)
        (sr_get_interface (example_router BigEndian) ''eth1'') ARP_REQUEST_SENT \<in> set ?evs"
    by simp
  from sendIPDatagram_pending_enqueues[OF h1 h2] h1
  show ?thesis by blast
qed

subsection \<open>The ICMP composer\<close>







text \<open>
  Claim C8, as the code has it. Take a call that meets the contract of the composer (a
  message that is not \<open>NULL\<close>, a length of at least \<open>MIN_ICMP_MSG_LEN\<close>, a destination
  that is not 0) and whose destination no entry of the routing table matches. With an
  explicit source address that is not 0, \<open>sendIcmpMessageWithSrcIP\<close> returns with no
  event at all: no allocation, no dispatch, no transmission, no buffering. Without a
  source address, \<open>sendIcmpMessage\<close> does the same when the router has a first
  interface, whose address, not 0, it takes as the source. On a router whose interface
  list is empty \<open>sendIcmpMessage\<close> does not return: \<open>assert(iface)\<close> ends the program
  before the routing table is looked up.
\<close>

theorem sendIcmpMessage_no_route_noop:
  assumes "MIN_ICMP_MSG_LEN P \<le> len"
    and "dest_ip \<noteq> 0"
    and "lookupRoutingTable (host P) sr dest_ip = None"
  shows "(src_ip \<noteq> 0 \<longrightarrow> sendIcmpMessageWithSrcIP P sr (Some msg) len dest_ip src_ip = Inr []) \<and>
         (if_list sr \<noteq> [] \<and> if_ip (hd (if_list sr)) \<noteq> 0 \<longrightarrow>
            sendIcmpMessage P sr (Some msg) len dest_ip = Inr []) \<and>
         (if_list sr = [] \<longrightarrow> sendIcmpMessage P sr (Some msg) len dest_ip = Inl AssertionFailed)"
  using assms
  by (auto simp: sendIcmpMessageWithSrcIP_def sendIcmpMessage_def split: list.splits)

text \<open>
  An 8-byte echo request for 172.16.0.9, which no route of the example routers matches:
  from 10.0.0.1 or with the address of the first interface it is dropped in silence; on
  the second example router, which has no interface, the call without a source address
  ends in the failed assertion.
\<close>

theorem sendIcmpMessage_no_route_noop_witness:
  "MIN_ICMP_MSG_LEN (example_platform LittleEndian ARP_RESOLVE_SUCCESS) \<le> 8 \<and>
   s_addr LittleEndian 172 16 0 9 \<noteq> 0 \<and>
   lookupRoutingTable (host (example_platform LittleEndian ARP_RESOLVE_SUCCESS))
     (example_router LittleEndian) (s_addr LittleEndian 172 16 0 9) = None \<and>
   s_addr LittleEndian 10 0 0 1 \<noteq> 0 \<and>
   sendIcmpMessageWithSrcIP (example_platform LittleEndian ARP_RESOLVE_SUCCESS)
     (example_router LittleEndian) (Some [8, 0, 0, 0, 0, 0, 0, 0]) 8
     (s_addr LittleEndian 172 16 0 9) (s_addr LittleEndian 10 0 0 1) = Inr [] \<and>
   if_list (example_router LittleEndian) \<noteq> [] \<and>
   if_ip (hd (if_list (example_router LittleEndian))) \<noteq> 0 \<and>
   sendIcmpMessage (example_platform LittleEndian ARP_RESOLVE_SUCCESS)
     (example_router LittleEndian) (Some [8, 0, 0, 0, 0, 0, 0, 0]) 8
     (s_addr LittleEndian 172 16 0 9) = Inr [] \<and>
   lookupRoutingTable (host (example_platform LittleEndian ARP_RESOLVE_SUCCESS))
     (example_tie_router LittleEndian) (s_addr LittleEndian 172 16 0 9) = None \<and>
   if_list (example_tie_router LittleEndian) = [] \<and>
   sendIcmpMessage (example_platform LittleEndian ARP_RESOLVE_SUCCESS)
     (example_tie_router LittleEndian) (Some [8, 0, 0, 0, 0, 0, 0, 0]) 8
     (s_addr LittleEndian 172 16 0 9) = Inl AssertionFailed"
proof -
  let ?P = "example_platform LittleEndian ARP_RESOLVE_SUCCESS"
  have h1: "MIN_ICMP_MSG_LEN ?P \<le> 8" by (simp add: example_platform_def)
  have h2: "s_addr LittleEndian 172 16 0 9 \<noteq> 0" by code_simp
  have h3: "lookupRoutingTable (host ?P) (example_router LittleEndian)
              (s_addr LittleEndian 172 16 0 9) = None"
    by code_simp
  have h4: "s_addr LittleEndian 10 0 0 1 \<noteq> 0" by code_simp
  have h5: "if_list (example_router LittleEndian) \<noteq> []" by (simp add: example_router_def)
  have h6: "if_ip (hd (if_list (example_router LittleEndian))) \<noteq> 0" by code_simp
  have h7: "lookupRoutingTable (host ?P) (example_tie_router LittleEndian)
              (s_addr LittleEndian 172 16 0 9) = None"
    by code_simp
  have h8: "if_list (example_tie_router LittleEndian) = []"
    by (simp add: example_tie_router_def)
  from sendIcmpMessage_no_route_noop
         [OF h1 h2 h3, of "s_addr LittleEndian 10 0 0 1" "[8, 0, 0, 0, 0, 0, 0, 0]"]
       sendIcmpMessage_no_route_noop
         [OF h1 h2 h7, of "s_addr LittleEndian 10 0 0 1" "[8, 0, 0, 0, 0, 0, 0, 0]"]
       h1 h2 h3 h4 h5 h6 h7 h8
  show ?thesis by blast
qed

text \<open>
  Claim C8 as stated fails. An 8-byte message for 172.16.0.9 meets the contract of the
  composer, and no route of the second example router matches its destination. The
  router has no interface, and the call without a source address does not return:
  \<open>assert(iface)\<close> in \<open>sendIcmpMessage\<close> ends the program.
\<close>

theorem sendIcmpMessage_no_interface_counterexample:
  "MIN_ICMP_MSG_LEN (example_platform LittleEndian ARP_RESOLVE_SUCCESS) \<le> 8 \<and>
   s_addr LittleEndian 172 16 0 9 \<noteq> 0 \<and>
   lookupRoutingTable LittleEndian (example_tie_router LittleEndian)
     (s_addr LittleEndian 172 16 0 9) = None \<and>
   sendIcmpMessage (example_platform LittleEndian ARP_RESOLVE_SUCCESS)
     (example_tie_router LittleEndian) (Some [8, 0, 0, 0, 0, 0, 0, 0]) 8
     (s_addr LittleEndian 172 16 0 9) = Inl AssertionFailed"
  by code_simp

end
